theory Spec2Isabelle
  imports Main
begin

section \<open>The canonical record (package commonmeta)\<close>

text \<open>
  Modelled from the spec: the declaration of \<^verbatim>\<open>commonmeta.Data\<close> and of its nested
  structs is not among the sources. The records below carry exactly the fields that
  \<^verbatim>\<open>Convert\<close> reads (\<^verbatim>\<open>data.ID\<close>, \<^verbatim>\<open>data.Container.Title\<close>,
  \<^verbatim>\<open>contributor.ContributorRoles\<close>, ...), with the types their uses impose, and the
  start and end page of a container that the spec names as the input of \<^verbatim>\<open>Pages()\<close>.
  A Go string is a \<open>string\<close>, a Go slice is a list (the nil slice and the empty slice
  are both \<open>[]\<close>: the code only asks for their length and ranges over them).
\<close>

record Title =
  Title :: string

record Description =
  Description :: string

record Subject =
  Subject :: string

record Contributor =
  Name :: string
  GivenName :: string
  FamilyName :: string
  ContributorRoles :: "string list"

record Container =
  Title :: string
  Issue :: string
  Volume :: string
  FirstPage :: string
  LastPage :: string

record Date =
  Published :: string
  Submitted :: string
  Accessed :: string

record Publisher =
  Name :: string

record Data =
  ID :: string
  Type :: string
  Titles :: "Title list"
  Descriptions :: "Description list"
  Subjects :: "Subject list"
  Contributors :: "Contributor list"
  Container :: Container
  Date :: Date
  Publisher :: Publisher
  Language :: string
  URL :: string
  Version :: string

text \<open>The zero value that \<^verbatim>\<open>var data commonmeta.Data\<close> declares.\<close>

definition Data_zero :: Data where
  "Data_zero =
     \<lparr>Data.ID = '''', Type = '''', Titles = [], Descriptions = [], Subjects = [],
      Contributors = [],
      Container = \<lparr>Container.Title = '''', Issue = '''', Volume = '''',
                   FirstPage = '''', LastPage = ''''\<rparr>,
      Date = \<lparr>Published = '''', Submitted = '''', Accessed = ''''\<rparr>,
      Publisher = \<lparr>Publisher.Name = ''''\<rparr>,
      Language = '''', URL = '''', Version = ''''\<rparr>"

section \<open>The CSL record (package csl)\<close>

text \<open>
  \<^verbatim>\<open>map[string][][]int\<close>: \<open>None\<close> is the nil map, \<open>Some kvs\<close> a map with the
  entries \<open>kvs\<close>, listed in the order of their keys (the order in which
  \<^verbatim>\<open>encoding/json\<close> writes a map).
\<close>

type_synonym date_parts = "(string \<times> int list list) list option"

record content =
  ID :: string
  Title :: string

record Author =
  Given :: string
  Family :: string
  Literal :: string

record CSL =
  ID :: string
  Type :: string
  Abstract :: string
  Accessed :: date_parts
  Author :: "Author list"
  ContainerTitle :: string
  DOI :: string
  ISSN :: string
  Issue :: string
  Issued :: date_parts
  Keyword :: string
  Language :: string
  License :: string
  Page :: string
  Publisher :: string
  Submitted :: date_parts
  Title :: string
  URL :: string
  Version :: string
  Volume :: string

text \<open>The zero value that \<^verbatim>\<open>var csl CSL\<close> declares.\<close>

definition CSL_zero :: CSL where
  "CSL_zero =
     \<lparr>CSL.ID = '''', Type = '''', Abstract = '''', Accessed = None, Author = [],
      ContainerTitle = '''', DOI = '''', ISSN = '''', Issue = '''', Issued = None,
      Keyword = '''', Language = '''', License = '''', Page = '''', Publisher = '''',
      Submitted = None, Title = '''', URL = '''', Version = '''', Volume = ''''\<rparr>"

definition CMToCSLMappings :: "string \<rightharpoonup> string" where
  "CMToCSLMappings = map_of
     [(''Article'', ''article''),
      (''JournalArticle'', ''article-journal''),
      (''Book'', ''book''),
      (''BookChapter'', ''chapter''),
      (''Collection'', ''collection''),
      (''Dataset'', ''dataset''),
      (''Document'', ''document''),
      (''Entry'', ''entry''),
      (''Event'', ''event''),
      (''Figure'', ''figure''),
      (''Image'', ''graphic''),
      (''LegalDocument'', ''legal_case''),
      (''Manuscript'', ''manuscript''),
      (''Map'', ''map''),
      (''Audiovisual'', ''motion_picture''),
      (''Patent'', ''patent''),
      (''Performance'', ''performance''),
      (''Journal'', ''periodical''),
      (''PersonalCommunication'', ''personal_communication''),
      (''Report'', ''report''),
      (''Review'', ''review''),
      (''Software'', ''software''),
      (''Presentation'', ''speech''),
      (''Standard'', ''standard''),
      (''Dissertation'', ''thesis''),
      (''WebPage'', ''webpage'')]"

text \<open>Reading a Go map at a key it does not hold gives the zero value, here the empty string.\<close>

definition map_index :: "(string \<rightharpoonup> string) \<Rightarrow> string \<Rightarrow> string" where
  "map_index m k = (case m k of None \<Rightarrow> '''' | Some v \<Rightarrow> v)"

section \<open>Go's runtime: indexing, panics, errors\<close>

datatype panic = IndexOutOfRange

datatype error = Error string

text \<open>\<^verbatim>\<open>xs[i]\<close> panics when \<open>i\<close> is not below \<^verbatim>\<open>len(xs)\<close>.\<close>

definition index :: "'a list \<Rightarrow> nat \<Rightarrow> panic + 'a" where
  "index xs i = (if i < length xs then Inr (xs ! i) else Inl IndexOutOfRange)"

text \<open>\<^verbatim>\<open>slices.Contains\<close> of the standard library.\<close>

definition Contains :: "'a list \<Rightarrow> 'a \<Rightarrow> bool" where
  "Contains s v = (v \<in> set s)"

section \<open>JSON documents and \<^verbatim>\<open>json.Marshal\<close>\<close>

text \<open>
  The output of \<^verbatim>\<open>json.Marshal\<close> is modelled as the JSON document it writes: an object
  is the list of its members in the order written, a string is the string that the written
  text denotes. The byte string is the compact rendering of that document, so two outputs
  are the same bytes exactly when they are the same document. \<^verbatim>\<open>json.Marshal\<close> cannot
  fail on a \<^verbatim>\<open>CSL\<close> value (strings, slices and string-keyed maps of integers only), so
  it always yields non-nil bytes and a nil error.
\<close>

datatype json =
    JNull
  | JNumber int
  | JString string
  | JArray "json list"
  | JObject "(string \<times> json) list"

text \<open>
  A Go string is any sequence of bytes, and \<^verbatim>\<open>json.Marshal\<close> writes it coerced to valid
  UTF-8: it decodes the bytes rune by rune and writes the escape of U+FFFD for every byte at
  which no valid encoding starts. \<open>rune_size\<close> is the width that \<^verbatim>\<open>utf8.DecodeRuneInString\<close>
  finds at the head of its argument, and 0 where it reports an encoding error: the first
  byte fixes the width and the range of the second byte, which excludes overlong
  encodings, surrogates and code points beyond U+10FFFF. The other escapes of the writer
  (quotes, control characters, \<^verbatim>\<open><\<close>, \<^verbatim>\<open>>\<close>, \<^verbatim>\<open>&\<close>, U+2028, U+2029) denote the
  character they stand for and leave the string unchanged.
\<close>

fun rune_size :: "string \<Rightarrow> nat" where
  "rune_size [] = 0"
| "rune_size (c # cs) =
     (let b = (of_char c :: nat) in
      if b < 0x80 then 1
      else if b < 0xC2 \<or> 0xF4 < b then 0
      else
        (let sz = (if b < 0xE0 then 2 else if b < 0xF0 then 3 else 4 :: nat);
             lo = (if b = 0xE0 then 0xA0 else if b = 0xF0 then 0x90 else 0x80 :: nat);
             hi = (if b = 0xED then 0x9F else if b = 0xF4 then 0x8F else 0xBF :: nat)
         in if length (c # cs) < sz then 0
            else if (of_char (cs ! 0) :: nat) < lo \<or> hi < (of_char (cs ! 0) :: nat) then 0
            else if sz \<le> 2 then 2
            else if (of_char (cs ! 1) :: nat) < 0x80 \<or> 0xBF < (of_char (cs ! 1) :: nat) then 0
            else if sz \<le> 3 then 3
            else if (of_char (cs ! 2) :: nat) < 0x80 \<or> 0xBF < (of_char (cs ! 2) :: nat) then 0
            else 4))"

text \<open>The bytes \<^verbatim>\<open>EF BF BD\<close> are the UTF-8 encoding of U+FFFD.\<close>

fun coerce_UTF8 :: "string \<Rightarrow> string" where
  "coerce_UTF8 [] = []"
| "coerce_UTF8 (c # cs) =
     (if rune_size (c # cs) = 0
      then [CHR 0xEF, CHR 0xBF, CHR 0xBD] @ coerce_UTF8 cs
      else c # take (rune_size (c # cs) - 1) cs
             @ coerce_UTF8 (drop (rune_size (c # cs) - 1) cs))"

text \<open>
  A field tagged \<^verbatim>\<open>omitempty\<close> is left out when it is a string, slice or map of
  length zero (a nil slice or map included); a field without the tag is always written.
\<close>

definition omitempty_string :: "string \<Rightarrow> string \<Rightarrow> (string \<times> json) list" where
  "omitempty_string key s = (if s = '''' then [] else [(key, JString (coerce_UTF8 s))])"

definition Marshal_date_parts :: "(string \<times> int list list) list \<Rightarrow> json" where
  "Marshal_date_parts kvs =
     JObject (map (\<lambda>(k, v). (coerce_UTF8 k,
                              JArray (map (\<lambda>parts. JArray (map JNumber parts)) v))) kvs)"

definition omitempty_date_parts :: "string \<Rightarrow> date_parts \<Rightarrow> (string \<times> json) list" where
  "omitempty_date_parts key m =
     (case m of
        None \<Rightarrow> []
      | Some kvs \<Rightarrow> if kvs = [] then [] else [(key, Marshal_date_parts kvs)])"

definition Marshal_Author :: "Author \<Rightarrow> json" where
  "Marshal_Author a =
     JObject (omitempty_string ''given'' (Author.Given a)
            @ omitempty_string ''family'' (Author.Family a)
            @ omitempty_string ''literal'' (Author.Literal a))"

definition omitempty_authors :: "string \<Rightarrow> Author list \<Rightarrow> (string \<times> json) list" where
  "omitempty_authors key as =
     (if as = [] then [] else [(key, JArray (map Marshal_Author as))])"

definition Marshal_CSL :: "CSL \<Rightarrow> json" where
  "Marshal_CSL csl =
     JObject ([(''id'', JString (coerce_UTF8 (CSL.ID csl))),
               (''type'', JString (coerce_UTF8 (CSL.Type csl)))]
            @ omitempty_string ''abstract'' (CSL.Abstract csl)
            @ omitempty_date_parts ''accessed'' (CSL.Accessed csl)
            @ omitempty_authors ''author'' (CSL.Author csl)
            @ omitempty_string ''container-title'' (CSL.ContainerTitle csl)
            @ omitempty_string ''DOI'' (CSL.DOI csl)
            @ omitempty_string ''ISSN'' (CSL.ISSN csl)
            @ omitempty_string ''issue'' (CSL.Issue csl)
            @ omitempty_date_parts ''issued'' (CSL.Issued csl)
            @ omitempty_string ''keyword'' (CSL.Keyword csl)
            @ omitempty_string ''language'' (CSL.Language csl)
            @ omitempty_string ''license'' (CSL.License csl)
            @ omitempty_string ''page'' (CSL.Page csl)
            @ omitempty_string ''publisher'' (CSL.Publisher csl)
            @ omitempty_date_parts ''submitted'' (CSL.Submitted csl)
            @ omitempty_string ''title'' (CSL.Title csl)
            @ omitempty_string ''URL'' (CSL.URL csl)
            @ omitempty_string ''version'' (CSL.Version csl)
            @ omitempty_string ''volume'' (CSL.Volume csl))"

text \<open>A nil slice is written as \<^verbatim>\<open>null\<close>, any other slice as an array.\<close>

definition Marshal_CSL_list :: "CSL list \<Rightarrow> json" where
  "Marshal_CSL_list cslList =
     (if cslList = [] then JNull else JArray (map Marshal_CSL cslList))"

text \<open>The members of a document that is an object; no members otherwise.\<close>

fun members :: "json \<Rightarrow> (string \<times> json) list" where
  "members (JObject kvs) = kvs"
| "members _ = []"

section \<open>Collaborators outside the sources\<close>

text \<open>
  \<^verbatim>\<open>gojsonschema.Result\<close>: \<^verbatim>\<open>Valid()\<close> holds when the result carries no error,
  \<^verbatim>\<open>Errors()\<close> returns the errors. A \<^verbatim>\<open>ResultError\<close> is kept as the field path and
  the description of the violated constraint.
\<close>

record ResultError =
  Field :: string
  Description :: string

record Result =
  errors :: "ResultError list"

definition Valid :: "Result \<Rightarrow> bool" where
  "Valid v = (length (errors v) = 0)"

definition Errors :: "Result \<Rightarrow> ResultError list" where
  "Errors v = errors v"

text \<open>
  The functions of this repository that \<^verbatim>\<open>Convert\<close> and \<^verbatim>\<open>Write\<close> call and whose
  code is not among the sources are parameters of the model:
  \<^verbatim>\<open>doiutils.ValidateDOI\<close> (its second result is discarded by \<^verbatim>\<open>Convert\<close>),
  \<^verbatim>\<open>dateutils.GetDateParts\<close>, the method \<^verbatim>\<open>Container.Pages\<close> and
  \<^verbatim>\<open>schemautils.JSONSchemaErrors\<close>, which takes the serialized document and the name
  of the schema and is taken to return a result (never a nil pointer). Every theorem
  below holds for all of them.
\<close>

record collaborators =
  ValidateDOI :: "string \<Rightarrow> string \<times> bool"
  GetDateParts :: "string \<Rightarrow> date_parts"
  Pages :: "Container \<Rightarrow> string"
  JSONSchemaErrors :: "json \<Rightarrow> string \<Rightarrow> Result"

section \<open>Read, Convert, Write, WriteList\<close>

definition Read :: "content \<Rightarrow> Data \<times> error option" where
  "Read c =
     (let data = Data_zero;
          data = data\<lparr>Data.ID := content.ID c\<rparr>
      in (data, None))"

text \<open>The loop over \<^verbatim>\<open>data.Subjects\<close>.\<close>

fun Keyword_loop :: "Subject list \<Rightarrow> CSL \<Rightarrow> CSL" where
  "Keyword_loop [] csl = csl"
| "Keyword_loop (subject # rest) csl =
     Keyword_loop rest
       (if Subject.Subject subject \<noteq> ''''
        then csl\<lparr>CSL.Keyword := CSL.Keyword csl @ Subject.Subject subject\<rparr>
        else csl)"

text \<open>
  The loop over \<^verbatim>\<open>data.Contributors\<close>. The variable \<^verbatim>\<open>author\<close> is declared before
  the loop and lives across its iterations, so it is part of the loop's state.
\<close>

fun Author_loop :: "Contributor list \<Rightarrow> Author \<Rightarrow> CSL \<Rightarrow> CSL" where
  "Author_loop [] author csl = csl"
| "Author_loop (contributor # rest) author csl =
     (if Contains (ContributorRoles contributor) ''Author''
      then
        (let author =
           (if FamilyName contributor \<noteq> ''''
            then \<lparr>Author.Given = GivenName contributor,
                  Family = FamilyName contributor,
                  Literal = ''''\<rparr>
            else \<lparr>Author.Given = '''',
                  Family = '''',
                  Literal = Contributor.Name contributor\<rparr>)
         in Author_loop rest author (csl\<lparr>CSL.Author := CSL.Author csl @ [author]\<rparr>))
      else Author_loop rest author csl)"

text \<open>
  \<^verbatim>\<open>if len(data.Titles) > 0 { csl.Title = data.Titles[0].Title }\<close> and the same
  statement for \<^verbatim>\<open>data.Descriptions\<close>; the index expression is the one that could panic.
\<close>

definition Title_step :: "Data \<Rightarrow> CSL \<Rightarrow> panic + CSL" where
  "Title_step data csl =
     (if length (Titles data) > 0
      then (case index (Titles data) 0 of
              Inl p \<Rightarrow> Inl p
            | Inr t \<Rightarrow> Inr (csl\<lparr>CSL.Title := Title.Title t\<rparr>))
      else Inr csl)"

definition Abstract_step :: "Data \<Rightarrow> CSL \<Rightarrow> panic + CSL" where
  "Abstract_step data csl =
     (if length (Descriptions data) > 0
      then (case index (Descriptions data) 0 of
              Inl p \<Rightarrow> Inl p
            | Inr t \<Rightarrow> Inr (csl\<lparr>CSL.Abstract := Description.Description t\<rparr>))
      else Inr csl)"

definition Convert :: "collaborators \<Rightarrow> Data \<Rightarrow> panic + (CSL \<times> error option)" where
  "Convert E data =
     (let csl = CSL_zero;
          csl = csl\<lparr>CSL.ID := Data.ID data\<rparr>;
          csl = csl\<lparr>CSL.Type := map_index CMToCSLMappings (Data.Type data)\<rparr>;
          csl = (if Data.Type data = ''Software'' \<and> Data.Version data \<noteq> ''''
                 then csl\<lparr>CSL.Type := ''book''\<rparr>
                 else if CSL.Type csl = ''''
                 then csl\<lparr>CSL.Type := ''Document''\<rparr>
                 else csl);
          csl = csl\<lparr>CSL.ContainerTitle := Container.Title (Data.Container data)\<rparr>;
          doi = fst (ValidateDOI E (Data.ID data));
          csl = csl\<lparr>CSL.DOI := doi\<rparr>;
          csl = csl\<lparr>CSL.Issue := Container.Issue (Data.Container data)\<rparr>;
          csl = (if length (Subjects data) > 0
                 then Keyword_loop (Subjects data) csl
                 else csl);
          csl = csl\<lparr>CSL.Language := Data.Language data\<rparr>;
          csl = csl\<lparr>CSL.Page := Pages E (Data.Container data)\<rparr>
      in case Title_step data csl of
           Inl p \<Rightarrow> Inl p
         | Inr csl \<Rightarrow>
     (let csl = csl\<lparr>CSL.URL := Data.URL data\<rparr>;
          csl = csl\<lparr>CSL.Volume := Container.Volume (Data.Container data)\<rparr>;
          csl = (if length (Contributors data) > 0
                 then Author_loop (Contributors data)
                        \<lparr>Author.Given = '''', Family = '''', Literal = ''''\<rparr> csl
                 else csl);
          csl = (if Published (Data.Date data) \<noteq> ''''
                 then csl\<lparr>CSL.Issued := GetDateParts E (Published (Data.Date data))\<rparr>
                 else csl);
          csl = (if Date.Submitted (Data.Date data) \<noteq> ''''
                 then csl\<lparr>CSL.Submitted := GetDateParts E (Date.Submitted (Data.Date data))\<rparr>
                 else csl);
          csl = (if Date.Accessed (Data.Date data) \<noteq> ''''
                 then csl\<lparr>CSL.Accessed := GetDateParts E (Date.Accessed (Data.Date data))\<rparr>
                 else csl)
      in case Abstract_step data csl of
           Inl p \<Rightarrow> Inl p
         | Inr csl \<Rightarrow>
     (let csl = csl\<lparr>CSL.Publisher := Publisher.Name (Data.Publisher data)\<rparr>;
          csl = csl\<lparr>CSL.Version := Data.Version data\<rparr>
      in Inr (csl, None))))"

text \<open>
  \<^verbatim>\<open>Write\<close>. The error of \<^verbatim>\<open>Convert\<close> and the error of \<^verbatim>\<open>json.Marshal\<close> are
  only printed; the bytes returned are \<open>None\<close> for \<^verbatim>\<open>nil\<close>, and the nil slice of
  errors is \<open>[]\<close>.
\<close>

definition Write :: "collaborators \<Rightarrow> Data \<Rightarrow> panic + (json option \<times> ResultError list)" where
  "Write E data =
     (case Convert E data of
        Inl p \<Rightarrow> Inl p
      | Inr (csl, err) \<Rightarrow>
          (let output = Marshal_CSL csl;
               validation = JSONSchemaErrors E output ''csl-data''
           in if \<not> Valid validation
              then Inr (None, Errors validation)
              else Inr (Some output, [])))"

fun WriteList_loop :: "collaborators \<Rightarrow> Data list \<Rightarrow> CSL list \<Rightarrow> panic + CSL list" where
  "WriteList_loop E [] cslList = Inr cslList"
| "WriteList_loop E (data # rest) cslList =
     (case Convert E data of
        Inl p \<Rightarrow> Inl p
      | Inr (csl, err) \<Rightarrow> WriteList_loop E rest (cslList @ [csl]))"

definition WriteList :: "collaborators \<Rightarrow> Data list \<Rightarrow> panic + (json option \<times> ResultError list)" where
  "WriteList E list =
     (case WriteList_loop E list [] of
        Inl p \<Rightarrow> Inl p
      | Inr cslList \<Rightarrow>
          (let output = Marshal_CSL_list cslList;
               validation = JSONSchemaErrors E output ''csl-data''
           in if \<not> Valid validation
              then Inr (None, Errors validation)
              else Inr (Some output, [])))"

section \<open>Reading converted output back\<close>

text \<open>
  \<^verbatim>\<open>Read\<close> takes a \<^verbatim>\<open>content\<close>, whose fields are tagged \<^verbatim>\<open>json:"id"\<close> and
  \<^verbatim>\<open>json:"title"\<close>: decoding a document into it keeps the string members of these two
  names and leaves the zero value where a member is absent or not a string. The documents
  decoded here are outputs of \<^verbatim>\<open>json.Marshal\<close> on a \<^verbatim>\<open>CSL\<close>, whose member names
  are distinct and differ from \<^verbatim>\<open>id\<close> and \<^verbatim>\<open>title\<close> in more than letter case, and
  whose strings are valid UTF-8, which the decoder returns as they are.
\<close>

definition member_string :: "json \<Rightarrow> string \<Rightarrow> string" where
  "member_string doc key =
     (case map_of (members doc) key of
        Some (JString s) \<Rightarrow> s
      | _ \<Rightarrow> '''')"

definition Unmarshal_content :: "json \<Rightarrow> content" where
  "Unmarshal_content doc =
     \<lparr>content.ID = member_string doc ''id'', Title = member_string doc ''title''\<rparr>"

text \<open>The serialized output of converting a record (what \<^verbatim>\<open>Write\<close> validates).\<close>

definition serialized :: "collaborators \<Rightarrow> Data \<Rightarrow> panic + json" where
  "serialized E data =
     (case Convert E data of
        Inl p \<Rightarrow> Inl p
      | Inr (csl, err) \<Rightarrow> Inr (Marshal_CSL csl))"

text \<open>The record that \<^verbatim>\<open>Read\<close> gives back from the output of converting \<open>data\<close>.\<close>

definition reread :: "collaborators \<Rightarrow> Data \<Rightarrow> panic + Data" where
  "reread E data =
     (case serialized E data of
        Inl p \<Rightarrow> Inl p
      | Inr doc \<Rightarrow> Inr (fst (Read (Unmarshal_content doc))))"

text \<open>The output of converting the reread record again.\<close>

definition reconverted :: "collaborators \<Rightarrow> Data \<Rightarrow> panic + json" where
  "reconverted E data =
     (case reread E data of
        Inl p \<Rightarrow> Inl p
      | Inr data' \<Rightarrow> serialized E data')"

section \<open>Notions of the specification\<close>

text \<open>The author entry the specification prescribes for a contributor.\<close>

definition emitted :: "Contributor \<Rightarrow> Author" where
  "emitted c =
     (if FamilyName c \<noteq> ''''
      then \<lparr>Author.Given = GivenName c, Family = FamilyName c, Literal = ''''\<rparr>
      else \<lparr>Author.Given = '''', Family = '''', Literal = Contributor.Name c\<rparr>)"

text \<open>
  The two shapes of an author entry: in a structured name the family name is populated
  and the literal is empty, in a literal name the literal is populated and nothing else.
\<close>

definition structured_shape :: "Author \<Rightarrow> bool" where
  "structured_shape a = (Author.Family a \<noteq> '''' \<and> Author.Literal a = '''')"

definition literal_shape :: "Author \<Rightarrow> bool" where
  "literal_shape a =
     (Author.Literal a \<noteq> '''' \<and> Author.Given a = '''' \<and> Author.Family a = '''')"

text \<open>The target type term the specification prescribes.\<close>

definition Type_term :: "Data \<Rightarrow> string" where
  "Type_term data =
     (if Data.Type data = ''Software'' \<and> Data.Version data \<noteq> '''' then ''book''
      else if map_index CMToCSLMappings (Data.Type data) = '''' then ''Document''
      else map_index CMToCSLMappings (Data.Type data))"

text \<open>The names of the members of a serialized record.\<close>

definition keys :: "json \<Rightarrow> string set" where
  "keys doc = fst ` set (members doc)"

section \<open>A concrete record and concrete collaborators\<close>

text \<open>
  The record of the specification's end-to-end scenario, and stand-ins for the
  collaborators: a validator that accepts identifiers starting with \<^verbatim>\<open>10.\<close>, a date
  normalizer that answers one fixed date, a page range, a schema check that accepts every
  document and one that rejects every document.
\<close>

definition example_data :: Data where
  "example_data = Data_zero
     \<lparr>Data.ID := ''10.5555/12345678'',
      Data.Type := ''JournalArticle'',
      Titles := [\<lparr>Title.Title = ''Example''\<rparr>],
      Contributors :=
        [\<lparr>Contributor.Name = '''', GivenName = ''J'', FamilyName = ''Smith'',
          ContributorRoles = [''Author'']\<rparr>],
      Date := \<lparr>Published = ''2021-03-01'', Submitted = '''', Accessed = ''''\<rparr>\<rparr>"

definition accepting :: "json \<Rightarrow> string \<Rightarrow> Result" where
  "accepting doc schema = \<lparr>errors = []\<rparr>"

definition rejecting :: "json \<Rightarrow> string \<Rightarrow> Result" where
  "rejecting doc schema =
     \<lparr>errors = [\<lparr>Field = ''type'', Description = ''value not in the vocabulary''\<rparr>]\<rparr>"

definition example_collaborators :: "(json \<Rightarrow> string \<Rightarrow> Result) \<Rightarrow> collaborators" where
  "example_collaborators check =
     \<lparr>ValidateDOI = (\<lambda>s. if take 3 s = ''10.'' then (s, True) else ('''', False)),
      GetDateParts = (\<lambda>s. Some [(''date-parts'', [[2021, 3, 1]])]),
      Pages = (\<lambda>c. if FirstPage c = '''' then LastPage c
                    else if LastPage c = '''' then FirstPage c
                    else FirstPage c @ ''-'' @ LastPage c),
      JSONSchemaErrors = check\<rparr>"

definition example_software :: Data where
  "example_software = Data_zero
     \<lparr>Data.ID := ''zenodo.1234'',
      Data.Type := ''Software'',
      Subjects := [\<lparr>Subject.Subject = ''meta''\<rparr>, \<lparr>Subject.Subject = ''''\<rparr>,
                   \<lparr>Subject.Subject = ''data''\<rparr>],
      Contributors :=
        [\<lparr>Contributor.Name = '''', GivenName = ''J'', FamilyName = ''Smith'',
          ContributorRoles = [''Author'']\<rparr>,
         \<lparr>Contributor.Name = ''Jane Doe'', GivenName = ''Jane'', FamilyName = ''Doe'',
          ContributorRoles = [''Editor'']\<rparr>,
         \<lparr>Contributor.Name = ''Front Matter'', GivenName = '''', FamilyName = '''',
          ContributorRoles = [''Maintainer'', ''Author'']\<rparr>],
      Data.Version := ''1.0''\<rparr>"

text \<open>A record whose only contributor is an author without any name.\<close>

definition example_nameless :: Data where
  "example_nameless = Data_zero
     \<lparr>Contributors :=
        [\<lparr>Contributor.Name = '''', GivenName = '''', FamilyName = '''',
          ContributorRoles = [''Author'']\<rparr>]\<rparr>"

text \<open>The value a call returned together with a nil error, if it did.\<close>

definition result_of :: "panic + ('a \<times> error option) \<Rightarrow> 'a option" where
  "result_of r = (case r of Inr (x, None) \<Rightarrow> Some x | _ \<Rightarrow> None)"

section \<open>The loops and the steps of Convert in closed form\<close>

lemma Keyword_loop_eq:
  "Keyword_loop ss csl =
     csl\<lparr>CSL.Keyword :=
           CSL.Keyword csl @ concat (filter (\<lambda>s. s \<noteq> '''') (map Subject.Subject ss))\<rparr>"
  by (induction ss arbitrary: csl) simp_all

lemma Author_loop_eq:
  "Author_loop cs a csl =
     csl\<lparr>CSL.Author := CSL.Author csl @
        map emitted (filter (\<lambda>c. ''Author'' \<in> set (ContributorRoles c)) cs)\<rparr>"
  by (induction cs arbitrary: a csl) (simp_all add: Contains_def emitted_def Let_def)

text \<open>The guards \<^verbatim>\<open>len(...) > 0\<close> around the two loops change nothing.\<close>

lemma Keyword_guard:
  "(if ss \<noteq> [] then Keyword_loop ss csl else csl) =
     csl\<lparr>CSL.Keyword :=
           CSL.Keyword csl @ concat (filter (\<lambda>s. s \<noteq> '''') (map Subject.Subject ss))\<rparr>"
  by (cases ss) (simp_all add: Keyword_loop_eq)

lemma Author_guard:
  "(if cs \<noteq> [] then Author_loop cs a csl else csl) =
     csl\<lparr>CSL.Author := CSL.Author csl @
        map emitted (filter (\<lambda>c. ''Author'' \<in> set (ContributorRoles c)) cs)\<rparr>"
  by (cases cs) (simp_all add: Author_loop_eq)

text \<open>The two guarded index expressions never panic.\<close>

lemma Title_step_eq:
  "Title_step data csl =
     Inr (csl\<lparr>CSL.Title :=
                (case Titles data of [] \<Rightarrow> CSL.Title csl | t # _ \<Rightarrow> Title.Title t)\<rparr>)"
  by (cases "Titles data") (simp_all add: Title_step_def index_def)

lemma Abstract_step_eq:
  "Abstract_step data csl =
     Inr (csl\<lparr>CSL.Abstract :=
                (case Descriptions data of
                   [] \<Rightarrow> CSL.Abstract csl
                 | t # _ \<Rightarrow> Description.Description t)\<rparr>)"
  by (cases "Descriptions data") (simp_all add: Abstract_step_def index_def)

text \<open>A conditional assignment is an assignment of a conditional value.\<close>

lemma Type_step_eq:
  "(if c then csl\<lparr>CSL.Type := ''book''\<rparr>
    else if CSL.Type csl = '''' then csl\<lparr>CSL.Type := ''Document''\<rparr> else csl) =
   csl\<lparr>CSL.Type := (if c then ''book''
                    else if CSL.Type csl = '''' then ''Document'' else CSL.Type csl)\<rparr>"
  by simp

lemma Issued_step_eq:
  "(if c then csl\<lparr>CSL.Issued := v\<rparr> else csl) =
   csl\<lparr>CSL.Issued := (if c then v else CSL.Issued csl)\<rparr>"
  by simp

lemma Submitted_step_eq:
  "(if c then csl\<lparr>CSL.Submitted := v\<rparr> else csl) =
   csl\<lparr>CSL.Submitted := (if c then v else CSL.Submitted csl)\<rparr>"
  by simp

lemma Accessed_step_eq:
  "(if c then csl\<lparr>CSL.Accessed := v\<rparr> else csl) =
   csl\<lparr>CSL.Accessed := (if c then v else CSL.Accessed csl)\<rparr>"
  by simp

text \<open>The record that \<^verbatim>\<open>Convert\<close> returns, field by field.\<close>

lemma Convert_eq:
  "Convert E data = Inr
     (\<lparr>CSL.ID = Data.ID data,
       Type = Type_term data,
       Abstract = (case Descriptions data of [] \<Rightarrow> '''' | t # _ \<Rightarrow> Description.Description t),
       Accessed = (if Date.Accessed (Data.Date data) \<noteq> ''''
                   then GetDateParts E (Date.Accessed (Data.Date data)) else None),
       Author = map emitted
                  (filter (\<lambda>c. ''Author'' \<in> set (ContributorRoles c)) (Contributors data)),
       ContainerTitle = Container.Title (Data.Container data),
       DOI = fst (ValidateDOI E (Data.ID data)),
       ISSN = '''',
       Issue = Container.Issue (Data.Container data),
       Issued = (if Published (Data.Date data) \<noteq> ''''
                 then GetDateParts E (Published (Data.Date data)) else None),
       Keyword = concat (filter (\<lambda>s. s \<noteq> '''') (map Subject.Subject (Subjects data))),
       Language = Data.Language data,
       License = '''',
       Page = Pages E (Data.Container data),
       Publisher = Publisher.Name (Data.Publisher data),
       Submitted = (if Date.Submitted (Data.Date data) \<noteq> ''''
                    then GetDateParts E (Date.Submitted (Data.Date data)) else None),
       Title = (case Titles data of [] \<Rightarrow> '''' | t # _ \<Rightarrow> Title.Title t),
       URL = Data.URL data,
       Version = Data.Version data,
       Volume = Container.Volume (Data.Container data)\<rparr>, None)"
  by (simp add: Convert_def Let_def Title_step_eq Abstract_step_eq Keyword_guard Author_guard
        Type_step_eq Issued_step_eq Submitted_step_eq Accessed_step_eq CSL_zero_def
        Type_term_def
        split del: if_split cong: if_cong list.case_cong)

lemma WriteList_loop_returns: "\<exists>cslList'. WriteList_loop E list cslList = Inr cslList'"
  by (induction list arbitrary: cslList) (simp_all add: Convert_eq)

subsection \<open>The mapping table\<close>

lemma CMToCSLMappings_nonempty: "CMToCSLMappings k = Some t \<Longrightarrow> t \<noteq> ''''"
  by (auto simp: CMToCSLMappings_def split: if_splits)

lemma CMToCSLMappings_Software: "CMToCSLMappings ''Software'' = Some ''software''"
  by (simp add: CMToCSLMappings_def)

subsection \<open>The members of a serialized record\<close>

lemma keys_omitempty_string:
  "k \<in> fst ` set (omitempty_string key s) \<longleftrightarrow> k = key \<and> s \<noteq> ''''"
  by (auto simp: omitempty_string_def)

lemma keys_omitempty_date_parts:
  "k \<in> fst ` set (omitempty_date_parts key m) \<longleftrightarrow> k = key \<and> m \<noteq> None \<and> m \<noteq> Some []"
proof (cases m)
  case None
  then show ?thesis by (simp add: omitempty_date_parts_def)
next
  case (Some kvs)
  then show ?thesis by (cases "kvs = []") (simp_all add: omitempty_date_parts_def)
qed

lemma keys_omitempty_authors:
  "k \<in> fst ` set (omitempty_authors key as) \<longleftrightarrow> k = key \<and> as \<noteq> []"
  by (auto simp: omitempty_authors_def)

lemma date_keys_Marshal_CSL:
  "''issued'' \<in> keys (Marshal_CSL csl) \<longleftrightarrow>
     CSL.Issued csl \<noteq> None \<and> CSL.Issued csl \<noteq> Some []"
  "''submitted'' \<in> keys (Marshal_CSL csl) \<longleftrightarrow>
     CSL.Submitted csl \<noteq> None \<and> CSL.Submitted csl \<noteq> Some []"
  "''accessed'' \<in> keys (Marshal_CSL csl) \<longleftrightarrow>
     CSL.Accessed csl \<noteq> None \<and> CSL.Accessed csl \<noteq> Some []"
  by (simp_all add: keys_def Marshal_CSL_def image_Un keys_omitempty_string
        keys_omitempty_date_parts keys_omitempty_authors)

subsection \<open>Reading back\<close>

lemma coerce_UTF8_ascii:
  "\<forall>c \<in> set s. (of_char c :: nat) < 0x80 \<Longrightarrow> coerce_UTF8 s = s"
  by (induction s) (simp_all add: Let_def)

lemma reread_eq:
  "reread E data = Inr (Data_zero\<lparr>Data.ID := coerce_UTF8 (Data.ID data)\<rparr>)"
  by (simp add: reread_def serialized_def Convert_eq Read_def Unmarshal_content_def
        member_string_def Marshal_CSL_def)

subsection \<open>The concrete records, evaluated\<close>

lemma JSONSchemaErrors_example:
  "JSONSchemaErrors (example_collaborators check) = check"
  by (simp add: example_collaborators_def)

lemma Convert_example_data:
  "Convert (example_collaborators check) example_data = Inr
     (\<lparr>CSL.ID = ''10.5555/12345678'', Type = ''article-journal'', Abstract = '''',
       Accessed = None,
       Author = [\<lparr>Author.Given = ''J'', Family = ''Smith'', Literal = ''''\<rparr>],
       ContainerTitle = '''', DOI = ''10.5555/12345678'', ISSN = '''', Issue = '''',
       Issued = Some [(''date-parts'', [[2021, 3, 1]])], Keyword = '''', Language = '''',
       License = '''', Page = '''', Publisher = '''', Submitted = None,
       Title = ''Example'', URL = '''', Version = '''', Volume = ''''\<rparr>, None)"
  by (simp add: Convert_eq example_data_def example_collaborators_def Data_zero_def
        Type_term_def map_index_def CMToCSLMappings_def emitted_def)

lemma Convert_example_software:
  "Convert (example_collaborators check) example_software = Inr
     (\<lparr>CSL.ID = ''zenodo.1234'', Type = ''book'', Abstract = '''', Accessed = None,
       Author = [\<lparr>Author.Given = ''J'', Family = ''Smith'', Literal = ''''\<rparr>,
                 \<lparr>Author.Given = '''', Family = '''', Literal = ''Front Matter''\<rparr>],
       ContainerTitle = '''', DOI = '''', ISSN = '''', Issue = '''', Issued = None,
       Keyword = ''metadata'', Language = '''', License = '''', Page = '''',
       Publisher = '''', Submitted = None, Title = '''', URL = '''', Version = ''1.0'',
       Volume = ''''\<rparr>, None)"
  by (simp add: Convert_eq example_software_def example_collaborators_def Data_zero_def
        Type_term_def emitted_def)

lemma Convert_Data_zero:
  "Convert (example_collaborators check) Data_zero = Inr
     (\<lparr>CSL.ID = '''', Type = ''Document'', Abstract = '''', Accessed = None, Author = [],
       ContainerTitle = '''', DOI = '''', ISSN = '''', Issue = '''', Issued = None,
       Keyword = '''', Language = '''', License = '''', Page = '''', Publisher = '''',
       Submitted = None, Title = '''', URL = '''', Version = '''', Volume = ''''\<rparr>, None)"
  by (simp add: Convert_eq example_collaborators_def Data_zero_def Type_term_def
        map_index_def CMToCSLMappings_def)

lemma serialized_example_data:
  "serialized (example_collaborators check) example_data = Inr
     (JObject
       [(''id'', JString ''10.5555/12345678''),
        (''type'', JString ''article-journal''),
        (''author'',
         JArray [JObject [(''given'', JString ''J''), (''family'', JString ''Smith'')]]),
        (''DOI'', JString ''10.5555/12345678''),
        (''issued'',
         JObject [(''date-parts'', JArray [JArray [JNumber 2021, JNumber 3, JNumber 1]])]),
        (''title'', JString ''Example'')])"
  by (simp add: serialized_def Convert_example_data Marshal_CSL_def omitempty_string_def
        omitempty_date_parts_def omitempty_authors_def Marshal_Author_def
        Marshal_date_parts_def coerce_UTF8_ascii)

lemma serialized_ID_only_example:
  "serialized (example_collaborators check) (Data_zero\<lparr>Data.ID := ''10.5555/12345678''\<rparr>) =
   Inr (JObject
       [(''id'', JString ''10.5555/12345678''),
        (''type'', JString ''Document''),
        (''DOI'', JString ''10.5555/12345678'')])"
  by (simp add: serialized_def Convert_eq Data_zero_def Type_term_def map_index_def
        CMToCSLMappings_def example_collaborators_def Marshal_CSL_def omitempty_string_def
        omitempty_date_parts_def omitempty_authors_def coerce_UTF8_ascii)

lemma Convert_example_nameless:
  "Convert (example_collaborators check) example_nameless = Inr
     (\<lparr>CSL.ID = '''', Type = ''Document'', Abstract = '''', Accessed = None,
       Author = [\<lparr>Author.Given = '''', Family = '''', Literal = ''''\<rparr>],
       ContainerTitle = '''', DOI = '''', ISSN = '''', Issue = '''', Issued = None,
       Keyword = '''', Language = '''', License = '''', Page = '''', Publisher = '''',
       Submitted = None, Title = '''', URL = '''', Version = '''', Volume = ''''\<rparr>, None)"
  by (simp add: Convert_eq example_nameless_def example_collaborators_def Data_zero_def
        Type_term_def map_index_def CMToCSLMappings_def emitted_def)

section \<open>The claims\<close>

text \<open>
  C1. \<^verbatim>\<open>Write\<close> returns either the serialized bytes of the converted record with an
  empty error list, or nil bytes with the non-empty list of all errors of the schema
  check; never both, never neither. The first case is the one where the check reports no
  error. \<^verbatim>\<open>WriteList\<close> returns one of the same two shapes.
\<close>

theorem Write_exclusive:
  "(\<exists>doc. serialized E data = Inr doc \<and>
      (Errors (JSONSchemaErrors E doc ''csl-data'') = [] \<and>
         Write E data = Inr (Some doc, []) \<or>
       Errors (JSONSchemaErrors E doc ''csl-data'') \<noteq> [] \<and>
         Write E data = Inr (None, Errors (JSONSchemaErrors E doc ''csl-data'')))) \<and>
   ((\<exists>doc. WriteList E list = Inr (Some doc, [])) \<or>
    (\<exists>errs. errs \<noteq> [] \<and> WriteList E list = Inr (None, errs)))"
proof
  show "\<exists>doc. serialized E data = Inr doc \<and>
      (Errors (JSONSchemaErrors E doc ''csl-data'') = [] \<and>
         Write E data = Inr (Some doc, []) \<or>
       Errors (JSONSchemaErrors E doc ''csl-data'') \<noteq> [] \<and>
         Write E data = Inr (None, Errors (JSONSchemaErrors E doc ''csl-data'')))"
    by (simp add: serialized_def Write_def Convert_eq Valid_def Errors_def Let_def)
next
  obtain cslList where "WriteList_loop E list [] = Inr cslList"
    using WriteList_loop_returns by blast
  then show "(\<exists>doc. WriteList E list = Inr (Some doc, [])) \<or>
    (\<exists>errs. errs \<noteq> [] \<and> WriteList E list = Inr (None, errs))"
    by (simp add: WriteList_def Valid_def Errors_def Let_def)
qed

theorem Write_exclusive_witness:
  "Write (example_collaborators accepting) example_data = Inr
     (Some (JObject
       [(''id'', JString ''10.5555/12345678''),
        (''type'', JString ''article-journal''),
        (''author'',
         JArray [JObject [(''given'', JString ''J''), (''family'', JString ''Smith'')]]),
        (''DOI'', JString ''10.5555/12345678''),
        (''issued'',
         JObject [(''date-parts'', JArray [JArray [JNumber 2021, JNumber 3, JNumber 1]])]),
        (''title'', JString ''Example'')]), []) \<and>
   Write (example_collaborators rejecting) example_data = Inr
     (None, [\<lparr>Field = ''type'', Description = ''value not in the vocabulary''\<rparr>]) \<and>
   WriteList (example_collaborators rejecting) [example_data, example_software] = Inr
     (None, [\<lparr>Field = ''type'', Description = ''value not in the vocabulary''\<rparr>])"
proof (intro conjI)
  from Write_exclusive [of "example_collaborators accepting" example_data "[]"]
  show "Write (example_collaborators accepting) example_data = Inr
     (Some (JObject
       [(''id'', JString ''10.5555/12345678''),
        (''type'', JString ''article-journal''),
        (''author'',
         JArray [JObject [(''given'', JString ''J''), (''family'', JString ''Smith'')]]),
        (''DOI'', JString ''10.5555/12345678''),
        (''issued'',
         JObject [(''date-parts'', JArray [JArray [JNumber 2021, JNumber 3, JNumber 1]])]),
        (''title'', JString ''Example'')]), [])"
    by (simp add: serialized_example_data JSONSchemaErrors_example Errors_def accepting_def)
next
  from Write_exclusive [of "example_collaborators rejecting" example_data "[]"]
  show "Write (example_collaborators rejecting) example_data = Inr
     (None, [\<lparr>Field = ''type'', Description = ''value not in the vocabulary''\<rparr>])"
    by (simp add: serialized_example_data JSONSchemaErrors_example Errors_def rejecting_def)
next
  from Write_exclusive
         [of "example_collaborators rejecting" example_data "[example_data, example_software]"]
  show "WriteList (example_collaborators rejecting) [example_data, example_software] = Inr
     (None, [\<lparr>Field = ''type'', Description = ''value not in the vocabulary''\<rparr>])"
    by (simp add: WriteList_def Convert_example_data Convert_example_software
          JSONSchemaErrors_example Valid_def Errors_def rejecting_def)
qed

text \<open>
  C2. For a record of type \<^verbatim>\<open>"Software"\<close> with a non-empty version, \<^verbatim>\<open>Convert\<close>
  returns the target type \<^verbatim>\<open>"book"\<close>, which is not what the table holds for
  \<^verbatim>\<open>"Software"\<close>.
\<close>

theorem Software_with_Version_is_book:
  assumes "Data.Type data = ''Software''" and "Data.Version data \<noteq> ''''"
  shows "\<exists>csl. Convert E data = Inr (csl, None) \<and> CSL.Type csl = ''book'' \<and>
           CSL.Type csl \<noteq> map_index CMToCSLMappings (Data.Type data)"
  using assms by (simp add: Convert_eq Type_term_def map_index_def CMToCSLMappings_Software)

theorem Software_with_Version_is_book_witness:
  "Data.Type example_software = ''Software'' \<and> Data.Version example_software \<noteq> '''' \<and>
   map_option CSL.Type (result_of (Convert (example_collaborators accepting) example_software))
     = Some ''book''"
proof -
  have t: "Data.Type example_software = ''Software''"
    by (simp add: example_software_def)
  have v: "Data.Version example_software \<noteq> ''''"
    by (simp add: example_software_def)
  from Software_with_Version_is_book [OF t v, of "example_collaborators accepting"]
  obtain csl where "Convert (example_collaborators accepting) example_software = Inr (csl, None)"
    and "CSL.Type csl = ''book''"
    by blast
  with t v show ?thesis by (simp add: result_of_def)
qed

text \<open>
  C3, as amended. The authors that \<^verbatim>\<open>Convert\<close> emits are the contributors whose roles
  contain \<^verbatim>\<open>"Author"\<close>, one entry each and in source order. The entry of a contributor
  with a non-empty family name carries the given and the family name and an empty literal:
  it has the structured shape and not the literal one. The entry of any other contributor
  carries no given or family name and the contributor's name as its literal: it never has
  the structured shape, and it has the literal shape exactly when that name is non-empty.
  So no entry has both shapes, and an entry has neither only for an author without family
  name and without name.
\<close>

theorem authors_filtered_in_order:
  "\<exists>csl. Convert E data = Inr (csl, None) \<and>
     (let authors = filter (\<lambda>c. ''Author'' \<in> set (ContributorRoles c)) (Contributors data)
      in length (CSL.Author csl) = length authors \<and>
         (\<forall>i < length authors.
            (FamilyName (authors ! i) \<noteq> '''' \<longrightarrow>
               CSL.Author csl ! i =
                 \<lparr>Author.Given = GivenName (authors ! i),
                  Family = FamilyName (authors ! i), Literal = ''''\<rparr> \<and>
               structured_shape (CSL.Author csl ! i) \<and>
               \<not> literal_shape (CSL.Author csl ! i)) \<and>
            (FamilyName (authors ! i) = '''' \<longrightarrow>
               CSL.Author csl ! i =
                 \<lparr>Author.Given = '''', Family = '''',
                  Literal = Contributor.Name (authors ! i)\<rparr> \<and>
               \<not> structured_shape (CSL.Author csl ! i) \<and>
               (literal_shape (CSL.Author csl ! i) \<longleftrightarrow>
                  Contributor.Name (authors ! i) \<noteq> ''''))))"
  by (auto simp: Convert_eq Let_def emitted_def structured_shape_def literal_shape_def)

theorem authors_filtered_in_order_witness:
  "map_option CSL.Author (result_of (Convert (example_collaborators accepting) example_software))
     = Some [\<lparr>Author.Given = ''J'', Family = ''Smith'', Literal = ''''\<rparr>,
             \<lparr>Author.Given = '''', Family = '''', Literal = ''Front Matter''\<rparr>] \<and>
   structured_shape \<lparr>Author.Given = ''J'', Family = ''Smith'', Literal = ''''\<rparr> \<and>
   \<not> literal_shape \<lparr>Author.Given = ''J'', Family = ''Smith'', Literal = ''''\<rparr> \<and>
   literal_shape \<lparr>Author.Given = '''', Family = '''', Literal = ''Front Matter''\<rparr> \<and>
   \<not> structured_shape \<lparr>Author.Given = '''', Family = '''', Literal = ''Front Matter''\<rparr>"
  using authors_filtered_in_order [of "example_collaborators accepting" example_software]
  by (simp add: Convert_example_software result_of_def structured_shape_def literal_shape_def)

text \<open>
  C3, as stated, fails: the contributor of \<open>example_nameless\<close> has the role
  \<^verbatim>\<open>"Author"\<close> and neither a family name nor a name, and the entry emitted for it has no
  populated field at all (it is written as the empty object), so it has neither shape.
\<close>

theorem nameless_author_counterexample:
  "map_option CSL.Author (result_of (Convert (example_collaborators accepting) example_nameless))
     = Some [\<lparr>Author.Given = '''', Family = '''', Literal = ''''\<rparr>] \<and>
   \<not> structured_shape \<lparr>Author.Given = '''', Family = '''', Literal = ''''\<rparr> \<and>
   \<not> literal_shape \<lparr>Author.Given = '''', Family = '''', Literal = ''''\<rparr> \<and>
   Marshal_Author \<lparr>Author.Given = '''', Family = '''', Literal = ''''\<rparr> = JObject []"
  by (simp add: Convert_example_nameless result_of_def structured_shape_def literal_shape_def
        Marshal_Author_def omitempty_string_def)

text \<open>
  C4. Apart from the override for software with a version, the target type is the table's
  entry for the record's type when the table has one, and the literal \<^verbatim>\<open>"Document"\<close>
  when it has none.
\<close>

theorem type_from_table_or_default:
  "\<exists>csl. Convert E data = Inr (csl, None) \<and>
     (CMToCSLMappings (Data.Type data) = None \<longrightarrow> CSL.Type csl = ''Document'') \<and>
     (\<forall>t. CMToCSLMappings (Data.Type data) = Some t \<and>
          \<not> (Data.Type data = ''Software'' \<and> Data.Version data \<noteq> '''') \<longrightarrow>
          CSL.Type csl = t)"
  using CMToCSLMappings_Software CMToCSLMappings_nonempty [of "Data.Type data"]
  by (auto simp: Convert_eq Type_term_def map_index_def)

theorem type_from_table_or_default_witness:
  "CMToCSLMappings (Data.Type Data_zero) = None \<and>
   map_option CSL.Type (result_of (Convert (example_collaborators accepting) Data_zero))
     = Some ''Document'' \<and>
   CMToCSLMappings (Data.Type example_data) = Some ''article-journal'' \<and>
   \<not> (Data.Type example_data = ''Software'' \<and> Data.Version example_data \<noteq> '''') \<and>
   map_option CSL.Type (result_of (Convert (example_collaborators accepting) example_data))
     = Some ''article-journal''"
proof -
  have z: "CMToCSLMappings (Data.Type Data_zero) = None"
    by (simp add: Data_zero_def CMToCSLMappings_def)
  have j: "CMToCSLMappings (Data.Type example_data) = Some ''article-journal''"
    by (simp add: example_data_def Data_zero_def CMToCSLMappings_def)
  have n: "\<not> (Data.Type example_data = ''Software'' \<and> Data.Version example_data \<noteq> '''')"
    by (simp add: example_data_def Data_zero_def)
  from type_from_table_or_default [of "example_collaborators accepting" Data_zero] z
  have "map_option CSL.Type (result_of (Convert (example_collaborators accepting) Data_zero))
     = Some ''Document''"
    by (auto simp: result_of_def)
  moreover
  from type_from_table_or_default [of "example_collaborators accepting" example_data] j n
  have "map_option CSL.Type (result_of (Convert (example_collaborators accepting) example_data))
     = Some ''article-journal''"
    by (auto simp: result_of_def)
  ultimately show ?thesis using z j n by simp
qed

text \<open>
  C5. Each of the three date strings is handled on its own. A non-empty
  \<^verbatim>\<open>Published\<close>, \<^verbatim>\<open>Submitted\<close> or \<^verbatim>\<open>Accessed\<close> puts the result of the date
  normalizer into \<^verbatim>\<open>issued\<close>, \<^verbatim>\<open>submitted\<close> or \<^verbatim>\<open>accessed\<close>; an empty one
  leaves the field as declared (nil), and the serialized record then has no member of that
  name at all.
\<close>

theorem dates_independent:
  "\<exists>csl. Convert E data = Inr (csl, None) \<and>
     CSL.Issued csl = (if Published (Data.Date data) \<noteq> ''''
                       then GetDateParts E (Published (Data.Date data)) else None) \<and>
     CSL.Submitted csl = (if Date.Submitted (Data.Date data) \<noteq> ''''
                          then GetDateParts E (Date.Submitted (Data.Date data)) else None) \<and>
     CSL.Accessed csl = (if Date.Accessed (Data.Date data) \<noteq> ''''
                         then GetDateParts E (Date.Accessed (Data.Date data)) else None) \<and>
     (Published (Data.Date data) = '''' \<longrightarrow> ''issued'' \<notin> keys (Marshal_CSL csl)) \<and>
     (Date.Submitted (Data.Date data) = '''' \<longrightarrow> ''submitted'' \<notin> keys (Marshal_CSL csl)) \<and>
     (Date.Accessed (Data.Date data) = '''' \<longrightarrow> ''accessed'' \<notin> keys (Marshal_CSL csl))"
  by (simp add: Convert_eq date_keys_Marshal_CSL)

theorem dates_independent_witness:
  "Published (Data.Date example_data) \<noteq> '''' \<and>
   Date.Submitted (Data.Date example_data) = '''' \<and>
   Date.Accessed (Data.Date example_data) = '''' \<and>
   map_option
     (\<lambda>csl. (CSL.Issued csl, CSL.Submitted csl, CSL.Accessed csl,
             ''issued'' \<in> keys (Marshal_CSL csl),
             ''submitted'' \<in> keys (Marshal_CSL csl),
             ''accessed'' \<in> keys (Marshal_CSL csl)))
     (result_of (Convert (example_collaborators accepting) example_data))
     = Some (Some [(''date-parts'', [[2021, 3, 1]])], None, None, True, False, False)"
proof -
  have d: "Published (Data.Date example_data) \<noteq> '''' \<and>
           Date.Submitted (Data.Date example_data) = '''' \<and>
           Date.Accessed (Data.Date example_data) = ''''"
    by (simp add: example_data_def Data_zero_def)
  from dates_independent [of "example_collaborators accepting" example_data]
  obtain csl where c: "Convert (example_collaborators accepting) example_data = Inr (csl, None)"
    and s: "Date.Submitted (Data.Date example_data) = '''' \<longrightarrow>
              ''submitted'' \<notin> keys (Marshal_CSL csl)"
    and a: "Date.Accessed (Data.Date example_data) = '''' \<longrightarrow>
              ''accessed'' \<notin> keys (Marshal_CSL csl)"
    by blast
  from c have f: "CSL.Issued csl = Some [(''date-parts'', [[2021, 3, 1]])]"
    "CSL.Submitted csl = None" "CSL.Accessed csl = None"
    by (auto simp: Convert_example_data)
  from f have i: "''issued'' \<in> keys (Marshal_CSL csl)"
    by (simp add: date_keys_Marshal_CSL)
  from d s a have "''submitted'' \<notin> keys (Marshal_CSL csl)"
    and "''accessed'' \<notin> keys (Marshal_CSL csl)"
    by simp_all
  with c f i d show ?thesis
    by (simp add: result_of_def)
qed

text \<open>
  C6. The target keyword is the concatenation, in source order and with nothing in
  between, of the non-empty subject strings of the record.
\<close>

theorem keyword_concatenation:
  "\<exists>csl. Convert E data = Inr (csl, None) \<and>
     CSL.Keyword csl =
       concat (filter (\<lambda>s. s \<noteq> '''') (map Subject.Subject (Subjects data)))"
  by (simp add: Convert_eq)

theorem keyword_concatenation_witness:
  "map Subject.Subject (Subjects example_software) = [''meta'', '''', ''data''] \<and>
   map_option CSL.Keyword
     (result_of (Convert (example_collaborators accepting) example_software))
     = Some ''metadata''"
proof -
  have s: "map Subject.Subject (Subjects example_software) = [''meta'', '''', ''data'']"
    by (simp add: example_software_def Data_zero_def)
  from keyword_concatenation [of "example_collaborators accepting" example_software]
  have "map_option CSL.Keyword
     (result_of (Convert (example_collaborators accepting) example_software))
     = Some ''metadata''"
    by (simp add: Convert_example_software result_of_def)
  with s show ?thesis by simp
qed

text \<open>
  C7. \<^verbatim>\<open>Convert\<close> returns a record and a nil error for every canonical record: it
  neither panics nor reports an error. With no titles the target title is empty, with no
  descriptions the abstract is empty.
\<close>

theorem Convert_total:
  "\<exists>csl. Convert E data = Inr (csl, None) \<and>
     (Titles data = [] \<longrightarrow> CSL.Title csl = '''') \<and>
     (Descriptions data = [] \<longrightarrow> CSL.Abstract csl = '''')"
  by (simp add: Convert_eq)

theorem Convert_total_witness:
  "Titles Data_zero = [] \<and> Descriptions Data_zero = [] \<and>
   map_option (\<lambda>csl. (CSL.Title csl, CSL.Abstract csl))
     (result_of (Convert (example_collaborators accepting) Data_zero))
     = Some ('''', '''')"
proof -
  have z: "Titles Data_zero = [] \<and> Descriptions Data_zero = []"
    by (simp add: Data_zero_def)
  from Convert_total [of "example_collaborators accepting" Data_zero]
  have "map_option (\<lambda>csl. (CSL.Title csl, CSL.Abstract csl))
     (result_of (Convert (example_collaborators accepting) Data_zero))
     = Some ('''', '''')"
    by (simp add: Convert_Data_zero result_of_def)
  with z show ?thesis by simp
qed

text \<open>
  C8, as amended. Reading converted output back keeps the identifier, as the output
  carries it, and nothing else: the reread record is the zero record whose \<^verbatim>\<open>ID\<close> is
  the original one coerced to valid UTF-8. Converting it again therefore yields the output
  of that identifier-only record, and this is identical to the first conversion's output
  for every record that carries nothing but an identifier that is valid UTF-8.
\<close>

theorem reread_keeps_ID_only:
  "reread E data = Inr (Data_zero\<lparr>Data.ID := coerce_UTF8 (Data.ID data)\<rparr>) \<and>
   reconverted E data = serialized E (Data_zero\<lparr>Data.ID := coerce_UTF8 (Data.ID data)\<rparr>) \<and>
   (coerce_UTF8 i = i \<longrightarrow>
      reconverted E (Data_zero\<lparr>Data.ID := i\<rparr>) = serialized E (Data_zero\<lparr>Data.ID := i\<rparr>))"
  by (simp add: reconverted_def reread_eq)

theorem reread_keeps_ID_only_witness:
  "coerce_UTF8 ''10.5555/12345678'' = ''10.5555/12345678'' \<and>
   reconverted (example_collaborators accepting) (Data_zero\<lparr>Data.ID := ''10.5555/12345678''\<rparr>) =
   Inr (JObject
       [(''id'', JString ''10.5555/12345678''),
        (''type'', JString ''Document''),
        (''DOI'', JString ''10.5555/12345678'')]) \<and>
   serialized (example_collaborators accepting) (Data_zero\<lparr>Data.ID := ''10.5555/12345678''\<rparr>) =
   Inr (JObject
       [(''id'', JString ''10.5555/12345678''),
        (''type'', JString ''Document''),
        (''DOI'', JString ''10.5555/12345678'')]) \<and>
   reread (example_collaborators accepting) (Data_zero\<lparr>Data.ID := [CHR 0xFF]\<rparr>) =
   Inr (Data_zero\<lparr>Data.ID := [CHR 0xEF, CHR 0xBF, CHR 0xBD]\<rparr>)"
proof -
  have v: "coerce_UTF8 ''10.5555/12345678'' = ''10.5555/12345678''"
    by (simp add: coerce_UTF8_ascii)
  have r: "coerce_UTF8 [CHR 0xFF] = [CHR 0xEF, CHR 0xBF, CHR 0xBD]"
    by simp
  from reread_keeps_ID_only
         [of "example_collaborators accepting" example_data "''10.5555/12345678''"] v
  have "reconverted (example_collaborators accepting)
          (Data_zero\<lparr>Data.ID := ''10.5555/12345678''\<rparr>) =
        serialized (example_collaborators accepting)
          (Data_zero\<lparr>Data.ID := ''10.5555/12345678''\<rparr>)"
    by blast
  moreover
  from reread_keeps_ID_only
         [of "example_collaborators accepting" "Data_zero\<lparr>Data.ID := [CHR 0xFF]\<rparr>" "[]"] r
  have "reread (example_collaborators accepting) (Data_zero\<lparr>Data.ID := [CHR 0xFF]\<rparr>) =
        Inr (Data_zero\<lparr>Data.ID := [CHR 0xEF, CHR 0xBF, CHR 0xBD]\<rparr>)"
    by simp
  ultimately show ?thesis
    using v by (simp add: serialized_ID_only_example)
qed

text \<open>
  C8, as stated, fails: the record of the end-to-end scenario has a title, an author and a
  date, its reread record has none of them, and the two outputs differ.
\<close>

theorem reconversion_counterexample:
  "reconverted (example_collaborators accepting) example_data \<noteq>
   serialized (example_collaborators accepting) example_data"
proof -
  have "coerce_UTF8 (Data.ID example_data) = ''10.5555/12345678''"
    by (simp add: example_data_def coerce_UTF8_ascii)
  then show ?thesis
    by (simp add: reconverted_def reread_eq serialized_example_data
          serialized_ID_only_example)
qed

text \<open>
  C9. \<^verbatim>\<open>Convert\<close> copies \<^verbatim>\<open>ID\<close> unchanged into the target identifier and puts the
  string that the DOI validator returns for \<^verbatim>\<open>ID\<close> into the target DOI, whatever the
  validator's second result. When the validator fails, returning the empty string, the
  DOI is empty and \<^verbatim>\<open>Convert\<close> still returns the record with a nil error.
\<close>

theorem ID_verbatim_DOI_validated:
  "\<exists>csl. Convert E data = Inr (csl, None) \<and>
     CSL.ID csl = Data.ID data \<and>
     CSL.DOI csl = fst (ValidateDOI E (Data.ID data)) \<and>
     (ValidateDOI E (Data.ID data) = ('''', False) \<longrightarrow> CSL.DOI csl = '''')"
  by (simp add: Convert_eq)

theorem ID_verbatim_DOI_validated_witness:
  "ValidateDOI (example_collaborators accepting) (Data.ID example_software) = ('''', False) \<and>
   map_option (\<lambda>csl. (CSL.ID csl, CSL.DOI csl))
     (result_of (Convert (example_collaborators accepting) example_software))
     = Some (''zenodo.1234'', '''') \<and>
   map_option (\<lambda>csl. (CSL.ID csl, CSL.DOI csl))
     (result_of (Convert (example_collaborators accepting) example_data))
     = Some (''10.5555/12345678'', ''10.5555/12345678'')"
proof -
  have f: "ValidateDOI (example_collaborators accepting) (Data.ID example_software)
             = ('''', False)"
    by (simp add: example_collaborators_def example_software_def)
  from ID_verbatim_DOI_validated [of "example_collaborators accepting" example_software] f
  have "map_option (\<lambda>csl. (CSL.ID csl, CSL.DOI csl))
     (result_of (Convert (example_collaborators accepting) example_software))
     = Some (''zenodo.1234'', '''')"
    by (simp add: Convert_example_software result_of_def)
  moreover
  from ID_verbatim_DOI_validated [of "example_collaborators accepting" example_data]
  have "map_option (\<lambda>csl. (CSL.ID csl, CSL.DOI csl))
     (result_of (Convert (example_collaborators accepting) example_data))
     = Some (''10.5555/12345678'', ''10.5555/12345678'')"
    by (simp add: Convert_example_data result_of_def)
  ultimately show ?thesis using f by simp
qed

text \<open>
  C10. \<^verbatim>\<open>Read\<close> copies the \<^verbatim>\<open>id\<close> of its input into \<^verbatim>\<open>ID\<close>; every other field
  of the record it returns is the zero value (the title of the input is not used), and
  the error it returns is nil.
\<close>

theorem Read_copies_ID_only:
  "Read c =
     (\<lparr>Data.ID = content.ID c, Type = '''', Titles = [], Descriptions = [], Subjects = [],
       Contributors = [],
       Container = \<lparr>Container.Title = '''', Issue = '''', Volume = '''',
                    FirstPage = '''', LastPage = ''''\<rparr>,
       Date = \<lparr>Published = '''', Submitted = '''', Accessed = ''''\<rparr>,
       Publisher = \<lparr>Publisher.Name = ''''\<rparr>,
       Language = '''', URL = '''', Version = ''''\<rparr>, None)"
  by (simp add: Read_def Data_zero_def)

theorem Read_copies_ID_only_witness:
  "Titles (fst (Read \<lparr>content.ID = ''10.5555/12345678'', Title = ''Example''\<rparr>)) = [] \<and>
   Data.ID (fst (Read \<lparr>content.ID = ''10.5555/12345678'', Title = ''Example''\<rparr>))
     = ''10.5555/12345678'' \<and>
   snd (Read \<lparr>content.ID = ''10.5555/12345678'', Title = ''Example''\<rparr>) = None"
  using Read_copies_ID_only [of "\<lparr>content.ID = ''10.5555/12345678'', Title = ''Example''\<rparr>"]
  by simp

end
